theory Spec2Isabelle
  imports Complex_Main "HOL-Library.Multiset"
begin

section \<open>StudentsAnalyticsCalculator.ts: data model\<close>

text \<open>
  A JavaScript \<^verbatim>\<open>number\<close> is an IEEE double. The calculator only compares the grade
  fields against literals, so a number is modelled by the value it denotes: a finite
  real, one of the two infinities, or NaN. Every comparison with NaN is false.
\<close>

datatype number = Finite real | PosInfinity | NegInfinity | NaN

text \<open>The operator \<^verbatim>\<open><\<close> on numbers.\<close>

fun num_lt :: "number \<Rightarrow> number \<Rightarrow> bool" where
  "num_lt NaN _ = False"
| "num_lt _ NaN = False"
| "num_lt (Finite a) (Finite b) = (a < b)"
| "num_lt (Finite a) PosInfinity = True"
| "num_lt (Finite a) NegInfinity = False"
| "num_lt NegInfinity (Finite b) = True"
| "num_lt NegInfinity PosInfinity = True"
| "num_lt NegInfinity NegInfinity = False"
| "num_lt PosInfinity _ = False"

text \<open>The operator \<^verbatim>\<open>>=\<close> on numbers.\<close>

fun num_ge :: "number \<Rightarrow> number \<Rightarrow> bool" where
  "num_ge NaN _ = False"
| "num_ge _ NaN = False"
| "num_ge (Finite a) (Finite b) = (b \<le> a)"
| "num_ge (Finite a) PosInfinity = False"
| "num_ge (Finite a) NegInfinity = True"
| "num_ge PosInfinity _ = True"
| "num_ge NegInfinity NegInfinity = True"
| "num_ge NegInfinity (Finite b) = False"
| "num_ge NegInfinity PosInfinity = False"

text \<open>
  The nullish coalescing operator \<^verbatim>\<open>a ?? d\<close>: an absent (undefined or null) field is
  \<open>None\<close>.
\<close>

definition nullish :: "'a option \<Rightarrow> 'a \<Rightarrow> 'a" where
  "nullish a d = (case a of None \<Rightarrow> d | Some v \<Rightarrow> v)"

text \<open>
  \<^verbatim>\<open>interface EnrollmentWithGrades extends Enrollment\<close>: the three optional fields the
  calculator reads. The fields of the base interface are never read; they live in the
  extension part of the record.
\<close>

record Enrollment =
  mediaPreFinal :: "number option"
  mediaPosFinal :: "number option"
  reprovadoPorFalta :: "bool option"

text \<open>\<^verbatim>\<open>type StudentCategory = keyof Omit<CategoryStatistics, 'totalStudents'>\<close>\<close>

datatype StudentCategory =
  ApprovedByAverage
| FailedByAverage
| ApprovedByGrade
| FailedByGrade
| FailedByAttendance

record CategoryStatistics =
  approvedByAverage :: nat
  failedByAverage :: nat
  approvedByGrade :: nat
  failedByGrade :: nat
  failedByAttendance :: nat
  totalStudents :: nat

text \<open>
  \<^verbatim>\<open>Class\<close> is imported from \<^verbatim>\<open>../types/Class\<close>; the calculator reads \<^verbatim>\<open>topic\<close>,
  \<^verbatim>\<open>year\<close>, \<^verbatim>\<open>semester\<close> and \<^verbatim>\<open>enrollments\<close> (which may be absent: the code writes
  \<^verbatim>\<open>classObj.enrollments || []\<close>). Year and semester are integers.
\<close>

record Class =
  topic :: string
  year :: int
  semester :: int
  enrollments :: "Enrollment list option"

record AnalyticsData =
  discipline :: string
  periodLabel :: string
  year :: int
  semester :: int
  statistics :: CategoryStatistics

section \<open>Classification\<close>

text \<open>
  \<^verbatim>\<open>classifyStudent\<close>, lines 51 to 80. Its declared result is
  \<^verbatim>\<open>StudentCategory | null\<close>; null is \<open>None\<close>.
\<close>

definition classifyStudent :: "'a Enrollment_scheme \<Rightarrow> StudentCategory option" where
  "classifyStudent enrollment =
     (let reprovadoPorFalta' = nullish (reprovadoPorFalta enrollment) False;
          mediaPosFinal' = nullish (mediaPosFinal enrollment) (Finite 0);
          mediaPreFinal' = nullish (mediaPreFinal enrollment) (Finite 0)
      in if reprovadoPorFalta' then Some FailedByAttendance
         else if num_ge mediaPreFinal' (Finite 7) then Some ApprovedByAverage
         else if num_ge mediaPreFinal' (Finite 3) \<and> num_lt mediaPreFinal' (Finite 7) then
           (if num_ge mediaPosFinal' (Finite 5) then Some ApprovedByGrade
            else Some FailedByGrade)
         else Some FailedByAverage)"

text \<open>\<^verbatim>\<open>stats[category]++\<close>\<close>

fun increment :: "StudentCategory \<Rightarrow> CategoryStatistics \<Rightarrow> CategoryStatistics" where
  "increment ApprovedByAverage stats = stats\<lparr>approvedByAverage := approvedByAverage stats + 1\<rparr>"
| "increment FailedByAverage stats = stats\<lparr>failedByAverage := failedByAverage stats + 1\<rparr>"
| "increment ApprovedByGrade stats = stats\<lparr>approvedByGrade := approvedByGrade stats + 1\<rparr>"
| "increment FailedByGrade stats = stats\<lparr>failedByGrade := failedByGrade stats + 1\<rparr>"
| "increment FailedByAttendance stats = stats\<lparr>failedByAttendance := failedByAttendance stats + 1\<rparr>"

text \<open>The body of the \<^verbatim>\<open>forEach\<close> callback, lines 97 to 103.\<close>

definition count_enrollment :: "'a Enrollment_scheme \<Rightarrow> CategoryStatistics \<Rightarrow> CategoryStatistics" where
  "count_enrollment enrollment stats =
     (case classifyStudent enrollment of
        None \<Rightarrow> stats
      | Some category \<Rightarrow> increment category stats)"

text \<open>\<^verbatim>\<open>calculateClassStatistics\<close>, lines 85 to 106.\<close>

definition calculateClassStatistics :: "'a Class_scheme \<Rightarrow> CategoryStatistics" where
  "calculateClassStatistics classObj =
     (let enrollments' = (case enrollments classObj of None \<Rightarrow> [] | Some es \<Rightarrow> es);
          stats = \<lparr>approvedByAverage = 0, failedByAverage = 0, approvedByGrade = 0,
                   failedByGrade = 0, failedByAttendance = 0,
                   totalStudents = length enrollments'\<rparr>
      in fold count_enrollment enrollments' stats)"

section \<open>Filtering, sorting and the analytics series\<close>

text \<open>
  \<^verbatim>\<open>String.prototype.toLowerCase\<close> is a built-in whose Unicode case table is not part
  of the repository: the functions that call it take the lowercasing function as the
  parameter \<open>lower\<close>. On ASCII text the built-in maps \<^verbatim>\<open>A\<close> to \<^verbatim>\<open>Z\<close> onto \<^verbatim>\<open>a\<close> to
  \<^verbatim>\<open>z\<close> and leaves every other character alone; \<open>toLowerCase\<close> below is that
  instance, used where a concrete string is evaluated.
\<close>

definition toLowerCase_char :: "char \<Rightarrow> char" where
  "toLowerCase_char c =
     (case map_of (zip ''ABCDEFGHIJKLMNOPQRSTUVWXYZ'' ''abcdefghijklmnopqrstuvwxyz'') c of
        None \<Rightarrow> c
      | Some l \<Rightarrow> l)"

definition toLowerCase :: "string \<Rightarrow> string" where
  "toLowerCase s = map toLowerCase_char s"

text \<open>\<^verbatim>\<open>filterClassesByDiscipline\<close>, lines 115 to 122.\<close>

definition filterClassesByDiscipline ::
    "(string \<Rightarrow> string) \<Rightarrow> Class list \<Rightarrow> string \<Rightarrow> Class list" where
  "filterClassesByDiscipline lower classes discipline' =
     filter (\<lambda>classObj. lower (topic classObj) = lower discipline') classes"

text \<open>The comparator handed to \<^verbatim>\<open>sort\<close>, lines 128 to 133.\<close>

definition compare_period :: "Class \<Rightarrow> Class \<Rightarrow> int" where
  "compare_period a b =
     (if Class.year a \<noteq> Class.year b then Class.year a - Class.year b
      else Class.semester a - Class.semester b)"

text \<open>
  \<^verbatim>\<open>Array.prototype.sort(comparefn)\<close>. ECMAScript requires the sort to be stable, and
  for a comparator that orders its arguments consistently the sorted array is then
  determined (lemma \<open>sortClassesByPeriod_determined\<close> below). It is computed here by
  insertion: an element is put in front of the first element that the comparator does not
  place before it, so among elements that compare equal the one that stood first stays
  first.
\<close>

fun insert_by :: "('a \<Rightarrow> 'a \<Rightarrow> int) \<Rightarrow> 'a \<Rightarrow> 'a list \<Rightarrow> 'a list" where
  "insert_by cmp x [] = [x]"
| "insert_by cmp x (y # ys) =
     (if cmp x y \<le> 0 then x # y # ys else y # insert_by cmp x ys)"

definition array_sort :: "('a \<Rightarrow> 'a \<Rightarrow> int) \<Rightarrow> 'a list \<Rightarrow> 'a list" where
  "array_sort cmp xs = foldr (insert_by cmp) xs []"

text \<open>
  \<^verbatim>\<open>sortClassesByPeriod\<close>, lines 127 to 134, on the array's contents: the spread
  \<^verbatim>\<open>[...classes]\<close> copies them, and the copy is sorted.
\<close>

definition sortClassesByPeriod :: "Class list \<Rightarrow> Class list" where
  "sortClassesByPeriod classes = array_sort compare_period classes"

text \<open>
  An integer inside a template literal is written in decimal, with a minus sign when
  negative. This holds of the integers a double represents exactly, of magnitude up to
  \<open>2\<^sup>5\<^sup>3\<close>; years and semesters are far below.
\<close>

fun digits :: "nat \<Rightarrow> string" where
  "digits n =
     (if n < 10 then [''0123456789'' ! n]
      else digits (n div 10) @ [''0123456789'' ! (n mod 10)])"

declare digits.simps [simp del]

definition number_toString :: "int \<Rightarrow> string" where
  "number_toString i = (if i < 0 then CHR ''-'' # digits (nat (- i)) else digits (nat i))"

text \<open>The callback of \<^verbatim>\<open>sortedClasses.map\<close>, lines 146 to 152.\<close>

definition analytics_entry :: "Class \<Rightarrow> AnalyticsData" where
  "analytics_entry classObj =
     \<lparr>discipline = topic classObj,
      periodLabel = number_toString (Class.year classObj) @ ''.'' @
                    number_toString (Class.semester classObj),
      year = Class.year classObj,
      semester = Class.semester classObj,
      statistics = calculateClassStatistics classObj\<rparr>"

text \<open>\<^verbatim>\<open>generateAnalyticsForDiscipline\<close>, lines 139 to 153.\<close>

definition generateAnalyticsForDiscipline ::
    "(string \<Rightarrow> string) \<Rightarrow> string \<Rightarrow> Class list \<Rightarrow> AnalyticsData list" where
  "generateAnalyticsForDiscipline lower discipline' allClasses =
     (let filteredClasses = filterClassesByDiscipline lower allClasses discipline';
          sortedClasses = sortClassesByPeriod filteredClasses
      in map analytics_entry sortedClasses)"

section \<open>Chart data\<close>

text \<open>
  A \<^verbatim>\<open>ChartDataPoint\<close> is an object whose keys are strings; five of them are not
  identifiers. It is modelled as the list of its properties in the order the object
  literal writes them, each a key and a value.
\<close>

datatype jsvalue = Str string | Num nat

type_synonym ChartDataPoint = "(string \<times> jsvalue) list"

text \<open>The callback of \<^verbatim>\<open>analyticsData.map\<close>, lines 161 to 168.\<close>

definition chart_point :: "AnalyticsData \<Rightarrow> ChartDataPoint" where
  "chart_point item =
     [(''period'', Str (periodLabel item)),
      (''APV. M'', Num (approvedByAverage (statistics item))),
      (''APV. N'', Num (approvedByGrade (statistics item))),
      (''REP. N'', Num (failedByGrade (statistics item))),
      (''REP. M'', Num (failedByAverage (statistics item))),
      (''REP. F'', Num (failedByAttendance (statistics item)))]"

text \<open>\<^verbatim>\<open>transformToChartData\<close>, lines 158 to 169.\<close>

definition transformToChartData :: "AnalyticsData list \<Rightarrow> ChartDataPoint list" where
  "transformToChartData analyticsData = map chart_point analyticsData"

section \<open>Arrays as objects: who may be mutated\<close>

text \<open>
  A JavaScript array is an object, reached through a reference, and \<^verbatim>\<open>sort\<close> works in
  place. The heap holds the contents of every array; a reference is an index into it.
  \<^verbatim>\<open>filter\<close> and the spread \<^verbatim>\<open>[...classes]\<close> allocate a new array; \<^verbatim>\<open>sort\<close>
  overwrites the array it is called on and returns the same reference. The array that
  \<^verbatim>\<open>map\<close> builds holds the entries of the series and is returned as a value.
\<close>

type_synonym heap = "Class list list"

definition alloc :: "Class list \<Rightarrow> heap \<Rightarrow> nat \<times> heap" where
  "alloc contents h = (length h, h @ [contents])"

definition sort_in_place :: "(Class \<Rightarrow> Class \<Rightarrow> int) \<Rightarrow> nat \<Rightarrow> heap \<Rightarrow> nat \<times> heap" where
  "sort_in_place cmp r h = (r, h[r := array_sort cmp (h ! r)])"

definition filterClassesByDiscipline_ref ::
    "(string \<Rightarrow> string) \<Rightarrow> nat \<Rightarrow> string \<Rightarrow> heap \<Rightarrow> nat \<times> heap" where
  "filterClassesByDiscipline_ref lower classes discipline' h =
     alloc (filterClassesByDiscipline lower (h ! classes) discipline') h"

definition sortClassesByPeriod_ref :: "nat \<Rightarrow> heap \<Rightarrow> nat \<times> heap" where
  "sortClassesByPeriod_ref classes h =
     (let (copy, h1) = alloc (h ! classes) h
      in sort_in_place compare_period copy h1)"

definition generateAnalyticsForDiscipline_ref ::
    "(string \<Rightarrow> string) \<Rightarrow> string \<Rightarrow> nat \<Rightarrow> heap \<Rightarrow> AnalyticsData list \<times> heap" where
  "generateAnalyticsForDiscipline_ref lower discipline' allClasses h =
     (let (filteredClasses, h1) = filterClassesByDiscipline_ref lower allClasses discipline' h;
          (sortedClasses, h2) = sortClassesByPeriod_ref filteredClasses h1
      in (map analytics_entry (h2 ! sortedClasses), h2))"

section \<open>Auxiliary notions and sample data\<close>

text \<open>The sum of the five outcome counters.\<close>

definition outcome_sum :: "CategoryStatistics \<Rightarrow> nat" where
  "outcome_sum s = approvedByAverage s + failedByAverage s + approvedByGrade s +
     failedByGrade s + failedByAttendance s"

text \<open>The chronological order on periods: by year, then by semester.\<close>

definition period_le :: "int \<times> int \<Rightarrow> int \<times> int \<Rightarrow> bool" where
  "period_le p q = (fst p < fst q \<or> (fst p = fst q \<and> snd p \<le> snd q))"

text \<open>The six keys of a chart record, in the order the object literal writes them.\<close>

definition chart_keys :: "string list" where
  "chart_keys = [''period'', ''APV. M'', ''APV. N'', ''REP. N'', ''REP. M'', ''REP. F'']"

text \<open>
  Sample data: three enrollments (a direct pass, a pass in the final exam, an attendance
  failure), and four offerings, three of them of the same subject in different casing, two
  of these in the same period.
\<close>

definition sample_enrollments :: "Enrollment list" where
  "sample_enrollments =
     [\<lparr>mediaPreFinal = Some (Finite 8), mediaPosFinal = None, reprovadoPorFalta = None\<rparr>,
      \<lparr>mediaPreFinal = Some (Finite 5), mediaPosFinal = Some (Finite 6),
       reprovadoPorFalta = None\<rparr>,
      \<lparr>mediaPreFinal = None, mediaPosFinal = None, reprovadoPorFalta = Some True\<rparr>]"

definition sample_classes :: "Class list" where
  "sample_classes =
     [\<lparr>topic = ''Math'', year = 2023, semester = 2, enrollments = Some sample_enrollments\<rparr>,
      \<lparr>topic = ''Physics'', year = 2022, semester = 1, enrollments = None\<rparr>,
      \<lparr>topic = ''math'', year = 2023, semester = 1, enrollments = Some []\<rparr>,
      \<lparr>topic = ''MATH'', year = 2023, semester = 2, enrollments = None\<rparr>]"

definition no_students :: CategoryStatistics where
  "no_students = \<lparr>approvedByAverage = 0, failedByAverage = 0, approvedByGrade = 0,
     failedByGrade = 0, failedByAttendance = 0, totalStudents = 0\<rparr>"

definition sample_series :: "AnalyticsData list" where
  "sample_series =
     [\<lparr>discipline = ''math'', periodLabel = ''2023.1'', year = 2023, semester = 1,
       statistics = no_students\<rparr>,
      \<lparr>discipline = ''Math'', periodLabel = ''2023.2'', year = 2023, semester = 2,
       statistics = \<lparr>approvedByAverage = 1, failedByAverage = 0, approvedByGrade = 1,
         failedByGrade = 0, failedByAttendance = 1, totalStudents = 3\<rparr>\<rparr>,
      \<lparr>discipline = ''MATH'', periodLabel = ''2023.2'', year = 2023, semester = 2,
       statistics = no_students\<rparr>]"

section \<open>Lemmas\<close>

subsection \<open>Comparing numbers\<close>




subsection \<open>Counting\<close>

lemma classifyStudent_Some: "\<exists>c. classifyStudent e = Some c"
  by (simp add: classifyStudent_def Let_def)

lemma increment_total: "totalStudents (increment c s) = totalStudents s"
  by (cases c) simp_all

lemma increment_sum: "outcome_sum (increment c s) = Suc (outcome_sum s)"
  by (cases c) (simp_all add: outcome_sum_def)

lemma count_enrollment_total: "totalStudents (count_enrollment e s) = totalStudents s"
  by (simp add: count_enrollment_def increment_total split: option.split)

lemma count_enrollment_sum: "outcome_sum (count_enrollment e s) = Suc (outcome_sum s)"
proof -
  obtain c where "classifyStudent e = Some c"
    using classifyStudent_Some by blast
  then show ?thesis
    by (simp add: count_enrollment_def increment_sum)
qed

lemma fold_count_total: "totalStudents (fold count_enrollment es s) = totalStudents s"
  by (induction es arbitrary: s) (simp_all add: count_enrollment_total)

lemma fold_count_sum: "outcome_sum (fold count_enrollment es s) = outcome_sum s + length es"
  by (induction es arbitrary: s) (simp_all add: count_enrollment_sum)

subsection \<open>The comparator and the sort\<close>

lemma compare_period_le:
  "compare_period a b \<le> 0 \<longleftrightarrow>
     period_le (Class.year a, Class.semester a) (Class.year b, Class.semester b)"
  by (auto simp: compare_period_def period_le_def)

lemma compare_period_same:
  "Class.year a = Class.year b \<Longrightarrow> Class.semester a = Class.semester b \<Longrightarrow>
   compare_period a b \<le> 0"
  by (simp add: compare_period_def)

lemma compare_period_total: "compare_period a b \<le> 0 \<or> compare_period b a \<le> 0"
  by (auto simp: compare_period_def)

lemma compare_period_trans:
  "compare_period a b \<le> 0 \<Longrightarrow> compare_period b c \<le> 0 \<Longrightarrow> compare_period a c \<le> 0"
  by (auto simp: compare_period_def split: if_splits)

lemma set_insert_by: "set (insert_by cmp x xs) = insert x (set xs)"
  by (induction xs) auto

lemma mset_insert_by: "mset (insert_by cmp x xs) = add_mset x (mset xs)"
  by (induction xs) auto

lemma mset_array_sort: "mset (array_sort cmp xs) = mset xs"
  by (induction xs) (simp_all add: array_sort_def mset_insert_by)

lemma set_array_sort: "set (array_sort cmp xs) = set xs"
  by (induction xs) (simp_all add: array_sort_def set_insert_by)

lemma sorted_insert_by_period:
  "sorted_wrt (\<lambda>a b. compare_period a b \<le> 0) xs \<Longrightarrow>
   sorted_wrt (\<lambda>a b. compare_period a b \<le> 0) (insert_by compare_period x xs)"
proof (induction xs)
  case Nil
  then show ?case by simp
next
  case (Cons y ys)
  show ?case
  proof (cases "compare_period x y \<le> 0")
    case True
    with Cons.prems show ?thesis
      by (auto intro: compare_period_trans)
  next
    case False
    then have yx: "compare_period y x \<le> 0"
      using compare_period_total[of x y] by simp
    from Cons have "sorted_wrt (\<lambda>a b. compare_period a b \<le> 0) (insert_by compare_period x ys)"
      by simp
    with Cons.prems yx False show ?thesis
      by (auto simp: set_insert_by)
  qed
qed

lemma sorted_sortClassesByPeriod:
  "sorted_wrt (\<lambda>a b. compare_period a b \<le> 0) (sortClassesByPeriod xs)"
  by (induction xs)
    (simp_all add: sortClassesByPeriod_def array_sort_def sorted_insert_by_period)

lemma filter_insert_by_other: "\<not> P x \<Longrightarrow> filter P (insert_by cmp x xs) = filter P xs"
  by (induction xs) simp_all

lemma filter_insert_by_same:
  "P x \<Longrightarrow> (\<And>y. P y \<Longrightarrow> cmp x y \<le> 0) \<Longrightarrow>
   filter P (insert_by cmp x xs) = x # filter P xs"
  by (induction xs) auto

lemma stable_sortClassesByPeriod:
  "filter (\<lambda>c. Class.year c = y \<and> Class.semester c = s) (sortClassesByPeriod xs) =
   filter (\<lambda>c. Class.year c = y \<and> Class.semester c = s) xs"
proof (induction xs)
  case Nil
  show ?case by (simp add: sortClassesByPeriod_def array_sort_def)
next
  case (Cons x xs)
  let ?P = "\<lambda>c. Class.year c = y \<and> Class.semester c = s"
  have step: "sortClassesByPeriod (x # xs) = insert_by compare_period x (sortClassesByPeriod xs)"
    by (simp add: sortClassesByPeriod_def array_sort_def)
  show ?case
  proof (cases "?P x")
    case True
    then have "filter ?P (insert_by compare_period x (sortClassesByPeriod xs)) =
        x # filter ?P (sortClassesByPeriod xs)"
      by (intro filter_insert_by_same) (auto intro: compare_period_same)
    with True Cons.IH show ?thesis
      by (simp add: step)
  next
    case False
    then show ?thesis
      using Cons.IH by (simp add: step filter_insert_by_other)
  qed
qed

lemma compare_period_refl: "compare_period a a \<le> 0"
  by (simp add: compare_period_def)

lemma compare_period_antisym:
  "compare_period a b \<le> 0 \<Longrightarrow> compare_period b a \<le> 0 \<Longrightarrow>
   Class.year a = Class.year b \<and> Class.semester a = Class.semester b"
  by (auto simp: compare_period_def split: if_splits)

lemma sorted_head_le:
  "sorted_wrt (\<lambda>a b. compare_period a b \<le> 0) (y # ys) \<Longrightarrow> z \<in> set (y # ys) \<Longrightarrow>
   compare_period y z \<le> 0"
  by (auto simp: compare_period_refl)

lemma same_periods_member:
  assumes "\<And>y s. filter (\<lambda>c. Class.year c = y \<and> Class.semester c = s) ys =
             filter (\<lambda>c. Class.year c = y \<and> Class.semester c = s) zs"
  shows "set ys = set zs"
proof -
  have "x \<in> set ys \<longleftrightarrow> x \<in> set zs" for x
  proof -
    let ?P = "\<lambda>c. Class.year c = Class.year x \<and> Class.semester c = Class.semester x"
    have "x \<in> set ys \<longleftrightarrow> x \<in> set (filter ?P ys)" by simp
    also have "\<dots> \<longleftrightarrow> x \<in> set (filter ?P zs)" by (simp only: assms)
    also have "\<dots> \<longleftrightarrow> x \<in> set zs" by simp
    finally show ?thesis .
  qed
  then show ?thesis by blast
qed

lemma sorted_stable_unique:
  assumes "sorted_wrt (\<lambda>a b. compare_period a b \<le> 0) ys"
    and "sorted_wrt (\<lambda>a b. compare_period a b \<le> 0) zs"
    and "\<And>y s. filter (\<lambda>c. Class.year c = y \<and> Class.semester c = s) ys =
             filter (\<lambda>c. Class.year c = y \<and> Class.semester c = s) zs"
  shows "ys = zs"
  using assms
proof (induction ys arbitrary: zs)
  case Nil
  then have "set zs = set []"
    using same_periods_member[of "[]" zs] by simp
  then show ?case by simp
next
  case (Cons y ys)
  have sets: "set (y # ys) = set zs"
    using same_periods_member[of "y # ys" zs] Cons.prems(3) by blast
  then obtain z zs' where zs: "zs = z # zs'"
    by (cases zs) auto
  have "z \<in> set (y # ys)" and "y \<in> set (z # zs')"
    using sets zs by auto
  then have "compare_period y z \<le> 0" and "compare_period z y \<le> 0"
    using sorted_head_le[of y ys z] sorted_head_le[of z zs' y] Cons.prems(1,2) zs
    by blast+
  then have same: "Class.year z = Class.year y" "Class.semester z = Class.semester y"
    using compare_period_antisym[of z y] by blast+
  let ?P = "\<lambda>c. Class.year c = Class.year y \<and> Class.semester c = Class.semester y"
  have "filter ?P (y # ys) = filter ?P (z # zs')"
    using Cons.prems(3) zs by blast
  moreover have "?P z"
    using same by simp
  ultimately have yz: "y = z"
    by simp
  have "ys = zs'"
  proof (rule Cons.IH)
    show "sorted_wrt (\<lambda>a b. compare_period a b \<le> 0) ys"
      using Cons.prems(1) by simp
    show "sorted_wrt (\<lambda>a b. compare_period a b \<le> 0) zs'"
      using Cons.prems(2) zs by simp
    fix k s
    let ?Q = "\<lambda>c. Class.year c = k \<and> Class.semester c = s"
    have "filter ?Q (y # ys) = filter ?Q (y # zs')"
      using Cons.prems(3) zs yz by blast
    then show "filter ?Q ys = filter ?Q zs'"
      by (cases "?Q y") simp_all
  qed
  with yz zs show ?case by simp
qed

text \<open>
  Whatever procedure an engine sorts with, a sorted rearrangement that keeps the order of
  the offerings of each period is the list computed here.
\<close>

lemma sortClassesByPeriod_determined:
  assumes "sorted_wrt (\<lambda>a b. compare_period a b \<le> 0) ys"
    and "\<And>y s. filter (\<lambda>c. Class.year c = y \<and> Class.semester c = s) ys =
             filter (\<lambda>c. Class.year c = y \<and> Class.semester c = s) xs"
  shows "ys = sortClassesByPeriod xs"
proof (rule sorted_stable_unique)
  show "sorted_wrt (\<lambda>a b. compare_period a b \<le> 0) ys"
    by (rule assms(1))
  show "sorted_wrt (\<lambda>a b. compare_period a b \<le> 0) (sortClassesByPeriod xs)"
    by (rule sorted_sortClassesByPeriod)
  show "filter (\<lambda>c. Class.year c = y \<and> Class.semester c = s) ys =
      filter (\<lambda>c. Class.year c = y \<and> Class.semester c = s) (sortClassesByPeriod xs)" for y s
    by (simp only: assms(2) stable_sortClassesByPeriod)
qed

subsection \<open>The series\<close>

lemma generate_eq:
  "generateAnalyticsForDiscipline lower d cs =
     map analytics_entry (sortClassesByPeriod (filterClassesByDiscipline lower cs d))"
  by (simp add: generateAnalyticsForDiscipline_def Let_def)

lemma analytics_entry_period:
  "AnalyticsData.year (analytics_entry c) = Class.year c"
  "AnalyticsData.semester (analytics_entry c) = Class.semester c"
  by (simp_all add: analytics_entry_def)

lemma sample_statistics:
  "calculateClassStatistics (sample_classes ! 0) =
     \<lparr>approvedByAverage = 1, failedByAverage = 0, approvedByGrade = 1,
      failedByGrade = 0, failedByAttendance = 1, totalStudents = 3\<rparr>"
  by (simp add: sample_classes_def sample_enrollments_def calculateClassStatistics_def
      count_enrollment_def classifyStudent_def nullish_def)

lemma sample_series_eq:
  "generateAnalyticsForDiscipline toLowerCase ''math'' sample_classes = sample_series"
  by (simp add: generateAnalyticsForDiscipline_def filterClassesByDiscipline_def
      sortClassesByPeriod_def array_sort_def compare_period_def analytics_entry_def
      calculateClassStatistics_def count_enrollment_def classifyStudent_def nullish_def
      sample_classes_def sample_enrollments_def sample_series_def no_students_def
      toLowerCase_def toLowerCase_char_def number_toString_def digits.simps)

section \<open>The classifier\<close>




section \<open>The aggregator\<close>

text \<open>
  C2. For every class, the statistics' \<open>totalStudents\<close> is the length of the enrollment
  sequence (an absent sequence counts as empty), whatever the classifier answers, and the
  five outcome counters sum to \<open>totalStudents\<close>, hence to at most \<open>totalStudents\<close>.
\<close>

theorem calculateClassStatistics_totals:
  "totalStudents (calculateClassStatistics c) =
     length (case enrollments c of None \<Rightarrow> [] | Some es \<Rightarrow> es) \<and>
   approvedByAverage (calculateClassStatistics c) + failedByAverage (calculateClassStatistics c) +
     approvedByGrade (calculateClassStatistics c) + failedByGrade (calculateClassStatistics c) +
     failedByAttendance (calculateClassStatistics c) = totalStudents (calculateClassStatistics c)"
proof -
  let ?es = "case enrollments c of None \<Rightarrow> [] | Some es \<Rightarrow> es"
  let ?s0 = "\<lparr>approvedByAverage = 0, failedByAverage = 0, approvedByGrade = 0,
     failedByGrade = 0, failedByAttendance = 0, totalStudents = length ?es\<rparr>"
  have eq: "calculateClassStatistics c = fold count_enrollment ?es ?s0"
    by (simp add: calculateClassStatistics_def Let_def)
  have t: "totalStudents (calculateClassStatistics c) = length ?es"
    by (simp add: eq fold_count_total)
  have "outcome_sum (calculateClassStatistics c) = outcome_sum ?s0 + length ?es"
    by (simp only: eq fold_count_sum)
  then have "outcome_sum (calculateClassStatistics c) = length ?es"
    by (simp add: outcome_sum_def)
  with t show ?thesis
    by (simp add: outcome_sum_def)
qed

theorem calculateClassStatistics_totals_witness:
  "totalStudents (calculateClassStatistics (sample_classes ! 0)) = 3 \<and>
   approvedByAverage (calculateClassStatistics (sample_classes ! 0)) = 1 \<and>
   approvedByGrade (calculateClassStatistics (sample_classes ! 0)) = 1 \<and>
   failedByAttendance (calculateClassStatistics (sample_classes ! 0)) = 1 \<and>
   totalStudents (calculateClassStatistics (sample_classes ! 1)) = 0"
  using calculateClassStatistics_totals[of "sample_classes ! 0"]
    calculateClassStatistics_totals[of "sample_classes ! 1"]
  by (simp add: sample_statistics) (simp add: sample_classes_def)

section \<open>The period pipeline\<close>

text \<open>
  C3. For every query subject and every collection of offerings, the series is sorted
  non-decreasingly by year, then by semester; and the sort is stable: for every period,
  the entries of that period are, in this order, the entries of the offerings of that
  period that match the subject, in the order of the input.
\<close>

theorem generateAnalyticsForDiscipline_sorted_stable:
  "sorted_wrt (\<lambda>a b. period_le (AnalyticsData.year a, AnalyticsData.semester a)
                                (AnalyticsData.year b, AnalyticsData.semester b))
     (generateAnalyticsForDiscipline lower d cs) \<and>
   (\<forall>y s. filter (\<lambda>e. AnalyticsData.year e = y \<and> AnalyticsData.semester e = s)
            (generateAnalyticsForDiscipline lower d cs) =
          map analytics_entry
            (filter (\<lambda>c. lower (topic c) = lower d \<and> Class.year c = y \<and> Class.semester c = s)
               cs))"
proof -
  let ?fs = "filterClassesByDiscipline lower cs d"
  have "sorted_wrt (\<lambda>a b. compare_period a b \<le> 0) (sortClassesByPeriod ?fs)"
    by (rule sorted_sortClassesByPeriod)
  then have sorted:
    "sorted_wrt (\<lambda>a b. period_le (AnalyticsData.year a, AnalyticsData.semester a)
                                  (AnalyticsData.year b, AnalyticsData.semester b))
       (generateAnalyticsForDiscipline lower d cs)"
    by (simp add: generate_eq sorted_wrt_map analytics_entry_period compare_period_le)
  have stable:
    "filter (\<lambda>e. AnalyticsData.year e = y \<and> AnalyticsData.semester e = s)
       (generateAnalyticsForDiscipline lower d cs) =
     map analytics_entry
       (filter (\<lambda>c. lower (topic c) = lower d \<and> Class.year c = y \<and> Class.semester c = s) cs)"
    for y s
  proof -
    have "filter (\<lambda>e. AnalyticsData.year e = y \<and> AnalyticsData.semester e = s)
            (generateAnalyticsForDiscipline lower d cs) =
          map analytics_entry (filter (\<lambda>c. Class.year c = y \<and> Class.semester c = s)
            (sortClassesByPeriod ?fs))"
      by (simp add: generate_eq filter_map comp_def analytics_entry_period)
    also have "\<dots> =
        map analytics_entry (filter (\<lambda>c. Class.year c = y \<and> Class.semester c = s) ?fs)"
      by (simp only: stable_sortClassesByPeriod)
    also have "\<dots> = map analytics_entry
        (filter (\<lambda>c. lower (topic c) = lower d \<and> Class.year c = y \<and> Class.semester c = s) cs)"
      by (simp add: filterClassesByDiscipline_def conj_commute)
    finally show ?thesis .
  qed
  from sorted stable show ?thesis by blast
qed

text \<open>
  On the sample, the two offerings of 2023.2 keep their order (\<open>Math\<close> before \<open>MATH\<close>)
  behind the later-listed offering of 2023.1.
\<close>

theorem generateAnalyticsForDiscipline_sorted_stable_witness:
  "sorted_wrt (\<lambda>a b. period_le (AnalyticsData.year a, AnalyticsData.semester a)
                                (AnalyticsData.year b, AnalyticsData.semester b))
     sample_series \<and>
   filter (\<lambda>e. AnalyticsData.year e = 2023 \<and> AnalyticsData.semester e = 2) sample_series =
     [analytics_entry (sample_classes ! 0), analytics_entry (sample_classes ! 3)] \<and>
   map discipline sample_series = [''math'', ''Math'', ''MATH'']"
proof -
  have "filter (\<lambda>c. toLowerCase (topic c) = toLowerCase ''math'' \<and>
            Class.year c = 2023 \<and> Class.semester c = 2) sample_classes =
        [sample_classes ! 0, sample_classes ! 3]"
    by (simp add: sample_classes_def toLowerCase_def toLowerCase_char_def)
  then show ?thesis
    using generateAnalyticsForDiscipline_sorted_stable[of toLowerCase "''math''" sample_classes]
    by (simp add: sample_series_eq) (simp add: sample_series_def)
qed

text \<open>
  C4. For every query subject and collection of offerings, the pipeline retains exactly the
  offerings whose subject, lowercased, equals the lowercased query: the series is made of
  the entries of these offerings, each as often as it stands in the collection. The match
  is exact, with no trimming: \<open>Calculus\<close> matches the query \<open>calculus\<close>, and
  \<open>Calculus\<close> behind a space does not.
\<close>

theorem filterClassesByDiscipline_exact:
  "(\<exists>retained. generateAnalyticsForDiscipline lower d cs = map analytics_entry retained \<and>
      mset retained = filter_mset (\<lambda>c. lower (topic c) = lower d) (mset cs)) \<and>
   filterClassesByDiscipline lower cs d = filter (\<lambda>c. lower (topic c) = lower d) cs \<and>
   filterClassesByDiscipline toLowerCase [c\<lparr>topic := ''Calculus''\<rparr>] ''calculus'' =
     [c\<lparr>topic := ''Calculus''\<rparr>] \<and>
   filterClassesByDiscipline toLowerCase [c\<lparr>topic := '' Calculus''\<rparr>] ''calculus'' = []"
proof -
  let ?kept = "sortClassesByPeriod (filterClassesByDiscipline lower cs d)"
  have "mset ?kept = filter_mset (\<lambda>c. lower (topic c) = lower d) (mset cs)"
    by (simp add: sortClassesByPeriod_def mset_array_sort filterClassesByDiscipline_def)
  then have first:
    "\<exists>retained. generateAnalyticsForDiscipline lower d cs = map analytics_entry retained \<and>
       mset retained = filter_mset (\<lambda>c. lower (topic c) = lower d) (mset cs)"
    using generate_eq by blast
  have second: "filterClassesByDiscipline lower cs d = filter (\<lambda>c. lower (topic c) = lower d) cs"
    by (simp add: filterClassesByDiscipline_def)
  have third: "filterClassesByDiscipline toLowerCase [c\<lparr>topic := ''Calculus''\<rparr>] ''calculus'' =
     [c\<lparr>topic := ''Calculus''\<rparr>]"
    by (simp add: filterClassesByDiscipline_def toLowerCase_def toLowerCase_char_def)
  have fourth:
    "filterClassesByDiscipline toLowerCase [c\<lparr>topic := '' Calculus''\<rparr>] ''calculus'' = []"
    by (simp add: filterClassesByDiscipline_def toLowerCase_def toLowerCase_char_def)
  from first second third fourth show ?thesis by blast
qed

theorem filterClassesByDiscipline_exact_witness:
  "map topic (filterClassesByDiscipline toLowerCase sample_classes ''math'') =
     [''Math'', ''math'', ''MATH''] \<and>
   filterClassesByDiscipline toLowerCase sample_classes ''math'' =
     filter (\<lambda>c. toLowerCase (topic c) = ''math'') sample_classes"
  using filterClassesByDiscipline_exact[of toLowerCase "''math''" sample_classes]
  by (simp add: sample_classes_def toLowerCase_def toLowerCase_char_def)

section \<open>The chart projector\<close>

text \<open>
  C5. For every analytics series, the chart data has the same length, and its i-th record
  holds the i-th entry's \<open>periodLabel\<close> under \<open>period\<close> and the i-th entry's five
  outcome counters under their keys: nothing is reordered, dropped or aggregated. Hence
  the chart data of a generated series lists the periods of that series, in its order.
\<close>

theorem transformToChartData_pointwise:
  "length (transformToChartData series) = length series \<and>
   (\<forall>i < length series.
      map_of (transformToChartData series ! i) ''period'' =
        Some (Str (periodLabel (series ! i))) \<and>
      map_of (transformToChartData series ! i) ''APV. M'' =
        Some (Num (approvedByAverage (statistics (series ! i)))) \<and>
      map_of (transformToChartData series ! i) ''APV. N'' =
        Some (Num (approvedByGrade (statistics (series ! i)))) \<and>
      map_of (transformToChartData series ! i) ''REP. N'' =
        Some (Num (failedByGrade (statistics (series ! i)))) \<and>
      map_of (transformToChartData series ! i) ''REP. M'' =
        Some (Num (failedByAverage (statistics (series ! i)))) \<and>
      map_of (transformToChartData series ! i) ''REP. F'' =
        Some (Num (failedByAttendance (statistics (series ! i))))) \<and>
   length (transformToChartData (generateAnalyticsForDiscipline lower d cs)) =
     length (generateAnalyticsForDiscipline lower d cs) \<and>
   map (\<lambda>p. map_of p ''period'')
       (transformToChartData (generateAnalyticsForDiscipline lower d cs)) =
     map (\<lambda>e. Some (Str (periodLabel e))) (generateAnalyticsForDiscipline lower d cs)"
  by (simp add: transformToChartData_def chart_point_def)

theorem transformToChartData_pointwise_witness:
  "length (transformToChartData sample_series) = 3 \<and>
   map_of (transformToChartData sample_series ! 1) ''period'' = Some (Str ''2023.2'') \<and>
   map_of (transformToChartData sample_series ! 1) ''APV. M'' = Some (Num 1) \<and>
   map_of (transformToChartData sample_series ! 1) ''APV. N'' = Some (Num 1) \<and>
   map_of (transformToChartData sample_series ! 1) ''REP. N'' = Some (Num 0) \<and>
   map_of (transformToChartData sample_series ! 1) ''REP. M'' = Some (Num 0) \<and>
   map_of (transformToChartData sample_series ! 1) ''REP. F'' = Some (Num 1) \<and>
   map (\<lambda>p. map_of p ''period'')
       (transformToChartData (generateAnalyticsForDiscipline toLowerCase ''math'' sample_classes)) =
     [Some (Str ''2023.1''), Some (Str ''2023.2''), Some (Str ''2023.2'')]"
proof -
  have len: "length sample_series = 3" and i: "(1::nat) < length sample_series"
    by (simp_all add: sample_series_def)
  have at: "periodLabel (sample_series ! 1) = ''2023.2''"
    "statistics (sample_series ! 1) =
       \<lparr>approvedByAverage = 1, failedByAverage = 0, approvedByGrade = 1,
        failedByGrade = 0, failedByAttendance = 1, totalStudents = 3\<rparr>"
    by (simp_all add: sample_series_def)
  have labels: "map periodLabel sample_series = [''2023.1'', ''2023.2'', ''2023.2'']"
    by (simp add: sample_series_def)
  from transformToChartData_pointwise[of sample_series toLowerCase "''math''" sample_classes]
  have all: "length (transformToChartData sample_series) = length sample_series"
    "\<forall>i < length sample_series.
      map_of (transformToChartData sample_series ! i) ''period'' =
        Some (Str (periodLabel (sample_series ! i))) \<and>
      map_of (transformToChartData sample_series ! i) ''APV. M'' =
        Some (Num (approvedByAverage (statistics (sample_series ! i)))) \<and>
      map_of (transformToChartData sample_series ! i) ''APV. N'' =
        Some (Num (approvedByGrade (statistics (sample_series ! i)))) \<and>
      map_of (transformToChartData sample_series ! i) ''REP. N'' =
        Some (Num (failedByGrade (statistics (sample_series ! i)))) \<and>
      map_of (transformToChartData sample_series ! i) ''REP. M'' =
        Some (Num (failedByAverage (statistics (sample_series ! i)))) \<and>
      map_of (transformToChartData sample_series ! i) ''REP. F'' =
        Some (Num (failedByAttendance (statistics (sample_series ! i))))"
    "map (\<lambda>p. map_of p ''period'')
       (transformToChartData (generateAnalyticsForDiscipline toLowerCase ''math'' sample_classes)) =
     map (\<lambda>e. Some (Str (periodLabel e)))
       (generateAnalyticsForDiscipline toLowerCase ''math'' sample_classes)"
    by blast+
  from all(2) i have
    "map_of (transformToChartData sample_series ! 1) ''period'' =
        Some (Str (periodLabel (sample_series ! 1))) \<and>
      map_of (transformToChartData sample_series ! 1) ''APV. M'' =
        Some (Num (approvedByAverage (statistics (sample_series ! 1)))) \<and>
      map_of (transformToChartData sample_series ! 1) ''APV. N'' =
        Some (Num (approvedByGrade (statistics (sample_series ! 1)))) \<and>
      map_of (transformToChartData sample_series ! 1) ''REP. N'' =
        Some (Num (failedByGrade (statistics (sample_series ! 1)))) \<and>
      map_of (transformToChartData sample_series ! 1) ''REP. M'' =
        Some (Num (failedByAverage (statistics (sample_series ! 1)))) \<and>
      map_of (transformToChartData sample_series ! 1) ''REP. F'' =
        Some (Num (failedByAttendance (statistics (sample_series ! 1))))"
    by blast
  then have one:
    "map_of (transformToChartData sample_series ! 1) ''period'' = Some (Str ''2023.2'') \<and>
     map_of (transformToChartData sample_series ! 1) ''APV. M'' = Some (Num 1) \<and>
     map_of (transformToChartData sample_series ! 1) ''APV. N'' = Some (Num 1) \<and>
     map_of (transformToChartData sample_series ! 1) ''REP. N'' = Some (Num 0) \<and>
     map_of (transformToChartData sample_series ! 1) ''REP. M'' = Some (Num 0) \<and>
     map_of (transformToChartData sample_series ! 1) ''REP. F'' = Some (Num 1)"
    by (simp only: at CategoryStatistics.simps)
  have "map (\<lambda>e. Some (Str (periodLabel e)))
       (generateAnalyticsForDiscipline toLowerCase ''math'' sample_classes) =
     [Some (Str ''2023.1''), Some (Str ''2023.2''), Some (Str ''2023.2'')]"
    by (simp add: sample_series_eq) (simp add: sample_series_def)
  with all(1,3) len one show ?thesis
    by simp
qed

text \<open>
  C9. Every chart record has exactly the six keys \<open>period\<close>, \<open>APV. M\<close>, \<open>APV. N\<close>,
  \<open>REP. N\<close>, \<open>REP. M\<close> and \<open>REP. F\<close>, and it is the record of an entry of the series:
  \<open>APV. M\<close> holds that entry's \<open>approvedByAverage\<close>, \<open>APV. N\<close> its \<open>approvedByGrade\<close>,
  \<open>REP. N\<close> its \<open>failedByGrade\<close>, \<open>REP. M\<close> its \<open>failedByAverage\<close> and \<open>REP. F\<close> its
  \<open>failedByAttendance\<close>. A longer code such as \<open>approved-by-average\<close> is not a key.
\<close>

theorem chart_point_keys:
  "p \<in> set (transformToChartData series) \<Longrightarrow>
   map fst p = chart_keys \<and>
   chart_keys = [''period'', ''APV. M'', ''APV. N'', ''REP. N'', ''REP. M'', ''REP. F''] \<and>
   distinct chart_keys \<and>
   map_of p ''approved-by-average'' = None \<and>
   (\<exists>item \<in> set series.
      map_of p ''period'' = Some (Str (periodLabel item)) \<and>
      map_of p ''APV. M'' = Some (Num (approvedByAverage (statistics item))) \<and>
      map_of p ''APV. N'' = Some (Num (approvedByGrade (statistics item))) \<and>
      map_of p ''REP. N'' = Some (Num (failedByGrade (statistics item))) \<and>
      map_of p ''REP. M'' = Some (Num (failedByAverage (statistics item))) \<and>
      map_of p ''REP. F'' = Some (Num (failedByAttendance (statistics item))))"
  by (auto simp: transformToChartData_def chart_point_def chart_keys_def)

theorem chart_point_keys_witness:
  "chart_point (sample_series ! 1) \<in> set (transformToChartData sample_series) \<and>
   map fst (chart_point (sample_series ! 1)) =
     [''period'', ''APV. M'', ''APV. N'', ''REP. N'', ''REP. M'', ''REP. F''] \<and>
   map_of (chart_point (sample_series ! 1)) ''approved-by-average'' = None"
proof -
  have mem: "chart_point (sample_series ! 1) \<in> set (transformToChartData sample_series)"
    by (simp add: transformToChartData_def sample_series_def)
  from chart_point_keys[OF mem] mem show ?thesis
    by simp
qed

section \<open>Absent fields and empty classes\<close>

text \<open>
  C6. An enrollment whose \<open>mediaPreFinal\<close> is absent is classified as the same enrollment
  with \<open>mediaPreFinal\<close> 0; likewise an absent \<open>mediaPosFinal\<close> counts as 0 and an absent
  \<open>reprovadoPorFalta\<close> as false. An enrollment with all three absent is classified
  \<open>FailedByAverage\<close>.
\<close>

theorem classifyStudent_defaults:
  "(mediaPreFinal e = None \<longrightarrow>
      classifyStudent e = classifyStudent (e\<lparr>mediaPreFinal := Some (Finite 0)\<rparr>)) \<and>
   (mediaPosFinal e = None \<longrightarrow>
      classifyStudent e = classifyStudent (e\<lparr>mediaPosFinal := Some (Finite 0)\<rparr>)) \<and>
   (reprovadoPorFalta e = None \<longrightarrow>
      classifyStudent e = classifyStudent (e\<lparr>reprovadoPorFalta := Some False\<rparr>)) \<and>
   (mediaPreFinal e = None \<and> mediaPosFinal e = None \<and> reprovadoPorFalta e = None \<longrightarrow>
      classifyStudent e = Some FailedByAverage)"
  by (simp add: classifyStudent_def nullish_def)

theorem classifyStudent_defaults_witness:
  "classifyStudent \<lparr>mediaPreFinal = None, mediaPosFinal = None, reprovadoPorFalta = None\<rparr> =
     Some FailedByAverage \<and>
   classifyStudent \<lparr>mediaPreFinal = None, mediaPosFinal = Some (Finite 6),
       reprovadoPorFalta = Some False\<rparr> =
     classifyStudent (\<lparr>mediaPreFinal = None, mediaPosFinal = Some (Finite 6),
       reprovadoPorFalta = Some False\<rparr>\<lparr>mediaPreFinal := Some (Finite 0)\<rparr>) \<and>
   classifyStudent \<lparr>mediaPreFinal = Some (Finite 5), mediaPosFinal = None,
       reprovadoPorFalta = Some False\<rparr> =
     classifyStudent (\<lparr>mediaPreFinal = Some (Finite 5), mediaPosFinal = None,
       reprovadoPorFalta = Some False\<rparr>\<lparr>mediaPosFinal := Some (Finite 0)\<rparr>) \<and>
   classifyStudent \<lparr>mediaPreFinal = Some (Finite 8), mediaPosFinal = Some (Finite 2),
       reprovadoPorFalta = None\<rparr> =
     classifyStudent (\<lparr>mediaPreFinal = Some (Finite 8), mediaPosFinal = Some (Finite 2),
       reprovadoPorFalta = None\<rparr>\<lparr>reprovadoPorFalta := Some False\<rparr>)"
proof -
  let ?e0 = "\<lparr>mediaPreFinal = None, mediaPosFinal = None, reprovadoPorFalta = None\<rparr>"
  let ?e1 = "\<lparr>mediaPreFinal = None, mediaPosFinal = Some (Finite 6),
    reprovadoPorFalta = Some False\<rparr>"
  let ?e2 = "\<lparr>mediaPreFinal = Some (Finite 5), mediaPosFinal = None,
    reprovadoPorFalta = Some False\<rparr>"
  let ?e3 = "\<lparr>mediaPreFinal = Some (Finite 8), mediaPosFinal = Some (Finite 2),
    reprovadoPorFalta = None\<rparr>"
  have absent: "mediaPreFinal ?e0 = None \<and> mediaPosFinal ?e0 = None \<and>
      reprovadoPorFalta ?e0 = None"
    "mediaPreFinal ?e1 = None" "mediaPosFinal ?e2 = None" "reprovadoPorFalta ?e3 = None"
    by simp_all
  from classifyStudent_defaults[of ?e0] absent(1)
  have a: "classifyStudent ?e0 = Some FailedByAverage"
    by blast
  from classifyStudent_defaults[of ?e1] absent(2)
  have b: "classifyStudent ?e1 = classifyStudent (?e1\<lparr>mediaPreFinal := Some (Finite 0)\<rparr>)"
    by blast
  from classifyStudent_defaults[of ?e2] absent(3)
  have c: "classifyStudent ?e2 = classifyStudent (?e2\<lparr>mediaPosFinal := Some (Finite 0)\<rparr>)"
    by blast
  from classifyStudent_defaults[of ?e3] absent(4)
  have d: "classifyStudent ?e3 = classifyStudent (?e3\<lparr>reprovadoPorFalta := Some False\<rparr>)"
    by blast
  from a b c d show ?thesis
    by (intro conjI)
qed

text \<open>
  C7. A class whose enrollments are empty, or absent, has statistics with the five outcome
  counters and \<open>totalStudents\<close> all zero; the aggregator returns them as it returns any
  other statistics.
\<close>

theorem calculateClassStatistics_empty:
  "enrollments c = None \<or> enrollments c = Some [] \<Longrightarrow>
   calculateClassStatistics c =
     \<lparr>approvedByAverage = 0, failedByAverage = 0, approvedByGrade = 0,
      failedByGrade = 0, failedByAttendance = 0, totalStudents = 0\<rparr>"
  by (auto simp: calculateClassStatistics_def)

theorem calculateClassStatistics_empty_witness:
  "calculateClassStatistics (sample_classes ! 2) = no_students \<and>
   calculateClassStatistics (sample_classes ! 3) = no_students \<and>
   enrollments (sample_classes ! 2) = Some [] \<and>
   enrollments (sample_classes ! 3) = None"
proof -
  have a: "enrollments (sample_classes ! 2) = Some []"
    and b: "enrollments (sample_classes ! 3) = None"
    by (simp_all add: sample_classes_def)
  from a have a': "enrollments (sample_classes ! 2) = None \<or>
      enrollments (sample_classes ! 2) = Some []"
    by simp
  from b have b': "enrollments (sample_classes ! 3) = None \<or>
      enrollments (sample_classes ! 3) = Some []"
    by simp
  from calculateClassStatistics_empty[OF a'] calculateClassStatistics_empty[OF b'] a b
  show ?thesis
    by (simp add: no_students_def)
qed

section \<open>The caller's collection\<close>

text \<open>
  C8. The pipeline does not mutate the caller's collection: when
  \<open>generateAnalyticsForDiscipline\<close> returns, the array it was given holds the same
  elements in the same order as before, and so does every other array that existed. The
  sort works on a defensive copy: the call allocates two arrays, the filtered one, which is
  still in the order of the input when the call returns, and its sorted copy; and
  \<open>sortClassesByPeriod\<close> itself returns a reference that did not exist before, to the
  sorted contents, and leaves the array it was given as it was. The series returned is the
  one computed from the contents of the caller's array.
\<close>

theorem generateAnalyticsForDiscipline_ref_frame:
  "allClasses < length h \<Longrightarrow>
   (case generateAnalyticsForDiscipline_ref lower d allClasses h of
      (series, h') \<Rightarrow>
        h' ! allClasses = h ! allClasses \<and>
        take (length h) h' = h \<and>
        series = generateAnalyticsForDiscipline lower d (h ! allClasses) \<and>
        length h' = length h + 2 \<and>
        h' ! length h = filterClassesByDiscipline lower (h ! allClasses) d \<and>
        h' ! Suc (length h) =
          sortClassesByPeriod (filterClassesByDiscipline lower (h ! allClasses) d)) \<and>
   (case sortClassesByPeriod_ref allClasses h of
      (sortedClasses, h') \<Rightarrow>
        sortedClasses = length h \<and>
        sortedClasses \<noteq> allClasses \<and>
        h' ! allClasses = h ! allClasses \<and>
        take (length h) h' = h \<and>
        h' ! sortedClasses = sortClassesByPeriod (h ! allClasses))"
  by (simp add: generateAnalyticsForDiscipline_ref_def filterClassesByDiscipline_ref_def
      sortClassesByPeriod_ref_def sort_in_place_def alloc_def Let_def nth_append
      generate_eq sortClassesByPeriod_def)

text \<open>
  On the sample the matching offerings are not in chronological order, so the sort does
  reorder what it is given: the sorted copy differs from the filtered array, which is left
  in the order of the input, as is the caller's array.
\<close>

theorem generateAnalyticsForDiscipline_ref_frame_witness:
  "(0::nat) < length [sample_classes] \<and>
   snd (generateAnalyticsForDiscipline_ref toLowerCase ''math'' 0 [sample_classes]) ! 0 =
     sample_classes \<and>
   fst (generateAnalyticsForDiscipline_ref toLowerCase ''math'' 0 [sample_classes]) =
     sample_series \<and>
   snd (generateAnalyticsForDiscipline_ref toLowerCase ''math'' 0 [sample_classes]) ! 1 =
     [sample_classes ! 0, sample_classes ! 2, sample_classes ! 3] \<and>
   snd (generateAnalyticsForDiscipline_ref toLowerCase ''math'' 0 [sample_classes]) !
       Suc (Suc 0) =
     [sample_classes ! 2, sample_classes ! 0, sample_classes ! 3] \<and>
   fst (sortClassesByPeriod_ref 0 [sample_classes]) = 1 \<and>
   snd (sortClassesByPeriod_ref 0 [sample_classes]) ! 0 = sample_classes \<and>
   snd (sortClassesByPeriod_ref 0 [sample_classes]) ! 1 =
     [sample_classes ! 1, sample_classes ! 2, sample_classes ! 0, sample_classes ! 3]"
proof -
  have len: "(0::nat) < length [sample_classes]"
    by simp
  have filtered: "filterClassesByDiscipline toLowerCase sample_classes ''math'' =
      [sample_classes ! 0, sample_classes ! 2, sample_classes ! 3]"
    by (simp add: sample_classes_def filterClassesByDiscipline_def toLowerCase_def
        toLowerCase_char_def)
  have sorted1: "sortClassesByPeriod [sample_classes ! 0, sample_classes ! 2, sample_classes ! 3] =
      [sample_classes ! 2, sample_classes ! 0, sample_classes ! 3]"
    by (simp add: sample_classes_def sortClassesByPeriod_def array_sort_def compare_period_def)
  have sorted2: "sortClassesByPeriod sample_classes =
      [sample_classes ! 1, sample_classes ! 2, sample_classes ! 0, sample_classes ! 3]"
    by (simp add: sample_classes_def sortClassesByPeriod_def array_sort_def compare_period_def)
  from generateAnalyticsForDiscipline_ref_frame[OF len, of toLowerCase "''math''"]
  show ?thesis
    by (simp add: sample_series_eq filtered sorted1 sorted2 split: prod.splits)
qed

section \<open>The subject of an entry\<close>

text \<open>
  C10. The \<open>discipline\<close> of every entry is the subject of the offering it was made from,
  in that offering's own casing, and that offering matches the query when both are
  lowercased; it is not the query string. Querying \<open>math\<close> against an offering whose
  subject is \<open>Math\<close> gives an entry whose \<open>discipline\<close> is \<open>Math\<close>.
\<close>

theorem discipline_is_topic:
  "map discipline (generateAnalyticsForDiscipline lower d cs) =
     map topic (sortClassesByPeriod (filterClassesByDiscipline lower cs d)) \<and>
   (\<forall>e \<in> set (generateAnalyticsForDiscipline lower d cs).
      \<exists>c \<in> set cs. e = analytics_entry c \<and> discipline e = topic c \<and>
        lower (topic c) = lower d) \<and>
   map discipline (generateAnalyticsForDiscipline toLowerCase ''math'' [c\<lparr>topic := ''Math''\<rparr>]) =
     [''Math'']"
proof -
  have a: "map discipline (generateAnalyticsForDiscipline lower d cs) =
     map topic (sortClassesByPeriod (filterClassesByDiscipline lower cs d))"
    by (simp add: generate_eq analytics_entry_def comp_def)
  have "set (sortClassesByPeriod (filterClassesByDiscipline lower cs d)) =
      {c \<in> set cs. lower (topic c) = lower d}"
    by (simp add: sortClassesByPeriod_def set_array_sort filterClassesByDiscipline_def)
  then have b: "\<forall>e \<in> set (generateAnalyticsForDiscipline lower d cs).
      \<exists>c \<in> set cs. e = analytics_entry c \<and> discipline e = topic c \<and>
        lower (topic c) = lower d"
    by (auto simp: generate_eq analytics_entry_def)
  have c: "map discipline
       (generateAnalyticsForDiscipline toLowerCase ''math'' [c\<lparr>topic := ''Math''\<rparr>]) =
     [''Math'']"
    by (simp add: generate_eq filterClassesByDiscipline_def sortClassesByPeriod_def
        array_sort_def analytics_entry_def toLowerCase_def toLowerCase_char_def)
  from a b c show ?thesis by blast
qed

theorem discipline_is_topic_witness:
  "map discipline (generateAnalyticsForDiscipline toLowerCase ''math'' sample_classes) =
     [''math'', ''Math'', ''MATH''] \<and>
   sample_series ! 1 \<in> set (generateAnalyticsForDiscipline toLowerCase ''math'' sample_classes) \<and>
   discipline (sample_series ! 1) = ''Math'' \<and>
   (\<exists>c \<in> set sample_classes. sample_series ! 1 = analytics_entry c \<and> topic c = ''Math'')"
proof -
  have mem: "sample_series ! 1 \<in>
      set (generateAnalyticsForDiscipline toLowerCase ''math'' sample_classes)"
    by (simp add: sample_series_eq) (simp add: sample_series_def)
  have d: "discipline (sample_series ! 1) = ''Math''"
    by (simp add: sample_series_def)
  from discipline_is_topic[of toLowerCase "''math''" sample_classes]
  have all: "\<forall>e \<in> set (generateAnalyticsForDiscipline toLowerCase ''math'' sample_classes).
      \<exists>c \<in> set sample_classes. e = analytics_entry c \<and> discipline e = topic c \<and>
        toLowerCase (topic c) = toLowerCase ''math''"
    by blast
  from all mem have "\<exists>c \<in> set sample_classes. sample_series ! 1 = analytics_entry c \<and>
      discipline (sample_series ! 1) = topic c \<and> toLowerCase (topic c) = toLowerCase ''math''"
    by blast
  with d have ex: "\<exists>c \<in> set sample_classes. sample_series ! 1 = analytics_entry c \<and>
      topic c = ''Math''"
    by auto
  have "map discipline (generateAnalyticsForDiscipline toLowerCase ''math'' sample_classes) =
     [''math'', ''Math'', ''MATH'']"
    by (simp add: sample_series_eq) (simp add: sample_series_def)
  with mem d ex show ?thesis
    by blast
qed

end
